theory Spec2Isabelle
  imports Complex_Main
begin

section \<open>The to-do store of \<open>src/app/index.tsx\<close>\<close>

text \<open>
  The screen component \<open>HomeScreen\<close> keeps its data in React state cells and one
  mutable table of fallback timers. Every handler is modelled as a function on a
  record of these cells. What a handler reads from outside the component (the
  clock \<open>Date.now()\<close>, the answer of a confirmation dialog, the platform, the
  permission status, the handle the notification service returns) is an argument
  of the model. Handlers run one after the other: the render-time snapshot
  \<open>todos\<close> that a handler closes over is the current list.
\<close>

subsection \<open>Numbers and strings of the host language\<close>

text \<open>
  A timestamp is a JavaScript number. The model keeps the integral values and the
  one non-number \<open>NaN\<close> that an invalid \<open>Date\<close> yields.
\<close>

datatype jsnum = NaN | Num int

text \<open>\<open>a <= b\<close> on numbers: every comparison with \<open>NaN\<close> is false.\<close>

fun js_le :: "jsnum \<Rightarrow> jsnum \<Rightarrow> bool" where
  "js_le (Num a) (Num b) = (a \<le> b)"
| "js_le _ _ = False"

text \<open>
  \<open>String.prototype.trim\<close> strips white space and line terminators from both
  ends. Characters are bytes here, so the set is the Latin-1 part of the
  language's white space: TAB, LF, VT, FF, CR, SPACE and NBSP.
\<close>

definition isWhiteSpace :: "char \<Rightarrow> bool" where
  "isWhiteSpace c \<longleftrightarrow>
     c \<in> set [CHR 0x09, CHR 0x0A, CHR 0x0B, CHR 0x0C, CHR 0x0D, CHR 0x20, CHR 0xA0]"

definition trim :: "string \<Rightarrow> string" where
  "trim s = rev (dropWhile isWhiteSpace (rev (dropWhile isWhiteSpace s)))"

text \<open>\<open>String(n)\<close> for an integral number below \<open>10^21\<close>: its decimal digits.\<close>

definition digitChar :: "nat \<Rightarrow> char" where
  "digitChar d =
     (if d = 0 then CHR ''0'' else if d = 1 then CHR ''1'' else if d = 2 then CHR ''2''
      else if d = 3 then CHR ''3'' else if d = 4 then CHR ''4'' else if d = 5 then CHR ''5''
      else if d = 6 then CHR ''6'' else if d = 7 then CHR ''7'' else if d = 8 then CHR ''8''
      else CHR ''9'')"

fun natToString :: "nat \<Rightarrow> string" where
  "natToString n =
     (if n < 10 then [digitChar n] else natToString (n div 10) @ [digitChar (n mod 10)])"

declare natToString.simps [simp del]

definition numToString :: "int \<Rightarrow> string" where
  "numToString n =
     (if n < 0 then CHR ''-'' # natToString (nat (- n)) else natToString (nat n))"

text \<open>A string is truthy when it is neither \<open>null\<close>/\<open>undefined\<close> nor empty.\<close>

fun truthy :: "string option \<Rightarrow> bool" where
  "truthy None = False"
| "truthy (Some s) = (s \<noteq> [])"

subsection \<open>Data model\<close>

text \<open>
  \<open>type TodoItem\<close>. The two optional fields hold \<open>None\<close> for both \<open>null\<close> and
  \<open>undefined\<close> (the persistence effect writes \<open>x ?? null\<close> for either).
\<close>

record TodoItem =
  id' :: string
  title :: string
  completed :: bool
  reminderTimestamp :: "jsnum option"
  notificationId :: "string option"

datatype platform_os = Web | Android | IOS

text \<open>
  The state cells of \<open>HomeScreen\<close>, the timer table \<open>webTimersRef.current\<close> (task
  id to the delay of its pending \<open>setTimeout\<close>), and the notification service:
  \<open>None\<close> when \<open>expo-notifications\<close> cannot be imported, otherwise the set of
  handles whose notification is scheduled.
\<close>

record HomeScreen =
  todos :: "TodoItem list"
  draftTitle :: string
  editingId :: "string option"
  editingText :: string
  reminderModalVisible :: bool
  reminderDateText :: string
  reminderTimeText :: string
  reminderTargetId :: "string option"
  webTimers :: "(string \<times> int) list"
  notifications :: "string set option"

definition initial :: "platform_os \<Rightarrow> string set option \<Rightarrow> HomeScreen" where
  "initial os svc =
     \<lparr> todos = [], draftTitle = [], editingId = None, editingText = [],
       reminderModalVisible = False, reminderDateText = [], reminderTimeText = [],
       reminderTargetId = None, webTimers = [], notifications = svc \<rparr>"

subsection \<open>Store operations\<close>

text \<open>\<open>handleAddTodo\<close>; \<open>now\<close> is the value of \<open>Date.now()\<close>.\<close>

definition handleAddTodo :: "int \<Rightarrow> HomeScreen \<Rightarrow> HomeScreen" where
  "handleAddTodo now s =
     (let trimmed = trim (draftTitle s) in
      if length trimmed = 0 then s
      else
        let newItem = \<lparr> id' = numToString now, title = trimmed, completed = False,
                        reminderTimestamp = None, notificationId = None \<rparr>
        in s\<lparr> todos := newItem # todos s, draftTitle := [] \<rparr>)"

definition toggleComplete :: "string \<Rightarrow> HomeScreen \<Rightarrow> HomeScreen" where
  "toggleComplete i s =
     s\<lparr> todos := map (\<lambda>t. if id' t = i then t\<lparr> completed := \<not> completed t \<rparr> else t) (todos s) \<rparr>"

definition startEdit :: "string \<Rightarrow> string \<Rightarrow> HomeScreen \<Rightarrow> HomeScreen" where
  "startEdit i current s = s\<lparr> editingId := Some i, editingText := current \<rparr>"

definition setEditingText :: "string \<Rightarrow> HomeScreen \<Rightarrow> HomeScreen" where
  "setEditingText txt s = s\<lparr> editingText := txt \<rparr>"

definition setDraftTitle :: "string \<Rightarrow> HomeScreen \<Rightarrow> HomeScreen" where
  "setDraftTitle txt s = s\<lparr> draftTitle := txt \<rparr>"

definition saveEdit :: "HomeScreen \<Rightarrow> HomeScreen" where
  "saveEdit s =
     (if \<not> truthy (editingId s) then s
      else
        let trimmed = trim (editingText s) in
        if length trimmed = 0 then s\<lparr> editingId := None, editingText := [] \<rparr>
        else
          s\<lparr> todos := map (\<lambda>t. if Some (id' t) = editingId s then t\<lparr> title := trimmed \<rparr> else t)
                          (todos s),
             editingId := None, editingText := [] \<rparr>)"

definition cancelEdit :: "HomeScreen \<Rightarrow> HomeScreen" where
  "cancelEdit s = s\<lparr> editingId := None, editingText := [] \<rparr>"

definition completeAll :: "HomeScreen \<Rightarrow> HomeScreen" where
  "completeAll s = s\<lparr> todos := map (\<lambda>t. t\<lparr> completed := True \<rparr>) (todos s) \<rparr>"

subsection \<open>Reminder scheduler\<close>

text \<open>The timer table is a JavaScript object: one entry per key.\<close>

definition timerDelete :: "string \<Rightarrow> (string \<times> int) list \<Rightarrow> (string \<times> int) list" where
  "timerDelete k tbl = filter (\<lambda>e. fst e \<noteq> k) tbl"

definition timerSet :: "string \<Rightarrow> int \<Rightarrow> (string \<times> int) list \<Rightarrow> (string \<times> int) list" where
  "timerSet k v tbl = (k, v) # timerDelete k tbl"

text \<open>
  \<open>Notifications.cancelScheduledNotificationAsync\<close>, reached only when the module
  could be imported. A failure of the service is swallowed by the source; the
  model takes the cancellation as done.
\<close>

definition cancelScheduledNotification :: "string \<Rightarrow> string set option \<Rightarrow> string set option" where
  "cancelScheduledNotification h svc = map_option (\<lambda>S. S - {h}) svc"

text \<open>
  \<open>clearReminder\<close>. The handle is looked up in the render-time snapshot \<open>snap\<close>
  of the list (\<open>todos.find\<close>, the first task with the id); the reminder fields are
  reset in the current list (\<open>setTodos((prev) => ...)\<close>).
\<close>

definition clearReminderIn :: "TodoItem list \<Rightarrow> string \<Rightarrow> HomeScreen \<Rightarrow> HomeScreen" where
  "clearReminderIn snap todoId s =
     (let svc =
        (case find (\<lambda>t. id' t = todoId) snap of
           None \<Rightarrow> notifications s
         | Some todo \<Rightarrow>
             (case notificationId todo of
                None \<Rightarrow> notifications s
              | Some h \<Rightarrow>
                  if h \<noteq> [] then cancelScheduledNotification h (notifications s)
                  else notifications s))
      in s\<lparr> notifications := svc,
            webTimers := timerDelete todoId (webTimers s),
            todos := map (\<lambda>t. if id' t = todoId
                               then t\<lparr> reminderTimestamp := None, notificationId := None \<rparr>
                               else t) (todos s) \<rparr>)"

definition clearReminder :: "string \<Rightarrow> HomeScreen \<Rightarrow> HomeScreen" where
  "clearReminder todoId s = clearReminderIn (todos s) todoId s"

text \<open>
  \<open>ensurePermission\<close>, with the service present: \<open>granted\<close> is whether
  \<open>getPermissionsAsync\<close> reports the permission, \<open>requested\<close> whether
  \<open>requestPermissionsAsync\<close> obtains it.
\<close>

definition ensurePermission :: "bool \<Rightarrow> bool \<Rightarrow> bool" where
  "ensurePermission granted requested = (if \<not> granted then requested else True)"

datatype alert = InvalidInput | NotFuture | PermissionDenied

text \<open>
  \<open>Math.max(0, date.getTime() - Date.now())\<close> as the delay of \<open>setTimeout\<close>; a
  delay of \<open>NaN\<close> runs the timer at once.
\<close>

fun timerDelay :: "jsnum \<Rightarrow> int \<Rightarrow> int" where
  "timerDelay (Num v) now = max 0 (v - now)"
| "timerDelay NaN now = 0"

text \<open>
  \<open>scheduleReminder\<close>; \<open>stamp\<close> is \<open>date.getTime()\<close> and \<open>handle\<close> the identifier
  that \<open>scheduleNotificationAsync\<close> returns. The old reminder is cleared before
  the new one is set (the source starts \<open>clearReminder\<close> first). The result
  carries the alert shown, if any.
\<close>

definition scheduleReminder ::
  "platform_os \<Rightarrow> int \<Rightarrow> bool \<Rightarrow> bool \<Rightarrow> string \<Rightarrow> string \<Rightarrow> jsnum \<Rightarrow> HomeScreen
     \<Rightarrow> alert option \<times> HomeScreen" where
  "scheduleReminder os now granted requested handle todoId stamp s =
     (let s1 = clearReminder todoId s in
      if notifications s1 \<noteq> None \<and> os \<noteq> Web then
        if \<not> ensurePermission granted requested then (Some PermissionDenied, s1)
        else
          (None,
           s1\<lparr> notifications := map_option (insert handle) (notifications s1),
               todos := map (\<lambda>t. if id' t = todoId
                                  then t\<lparr> reminderTimestamp := Some stamp,
                                         notificationId := Some handle \<rparr>
                                  else t) (todos s1) \<rparr>)
      else
        (None,
         s1\<lparr> webTimers := timerSet todoId (timerDelay stamp now) (webTimers s1),
             todos := map (\<lambda>t. if id' t = todoId
                                then t\<lparr> reminderTimestamp := Some stamp, notificationId := None \<rparr>
                                else t) (todos s1) \<rparr>))"

subsection \<open>Removal\<close>

definition handleDeleteTodo :: "string \<Rightarrow> HomeScreen \<Rightarrow> HomeScreen" where
  "handleDeleteTodo i s =
     (let s1 = clearReminder i s in s1\<lparr> todos := filter (\<lambda>t. id' t \<noteq> i) (todos s1) \<rparr>)"

text \<open>\<open>deleteAll\<close>; \<open>ok\<close> is the answer of the confirmation dialog.\<close>

definition deleteAll :: "platform_os \<Rightarrow> bool \<Rightarrow> HomeScreen \<Rightarrow> HomeScreen" where
  "deleteAll os ok s =
     (if os = Web then (if \<not> ok then s else s\<lparr> todos := [] \<rparr>)
      else (if ok then s\<lparr> todos := [] \<rparr> else s))"

text \<open>
  \<open>clearCompleted\<close>. Inside the updater, \<open>clearReminder\<close> runs for every completed
  task of \<open>prev\<close>; the updater returns the tasks that are not completed, and the
  updates queued by \<open>clearReminder\<close> apply to that list.
\<close>

definition clearCompleted :: "HomeScreen \<Rightarrow> HomeScreen" where
  "clearCompleted s =
     (let prev = todos s in
      fold (\<lambda>t. clearReminderIn prev (id' t)) (filter completed prev)
        (s\<lparr> todos := filter (\<lambda>t. \<not> completed t) prev \<rparr>))"

subsection \<open>Aggregate counters\<close>

text \<open>
  The quotient \<open>completedCount / total\<close> is a JavaScript division: with a zero
  divisor it yields no finite number (\<open>NaN\<close> or an infinity) instead of failing.
  Finite values are rationals here; the rounding error of double arithmetic is
  not modelled.
\<close>

datatype jsreal = NotFinite | Fin rat

definition js_divide :: "int \<Rightarrow> int \<Rightarrow> jsreal" where
  "js_divide a b = (if b = 0 then NotFinite else Fin (of_int a / of_int b))"

text \<open>\<open>Math.round(x * 100)\<close>: the nearest integer, a tie going up.\<close>

fun roundPercent :: "jsreal \<Rightarrow> jsreal" where
  "roundPercent NotFinite = NotFinite"
| "roundPercent (Fin q) = Fin (of_int \<lfloor>q * 100 + 1 / 2\<rfloor>)"

definition total :: "HomeScreen \<Rightarrow> int" where
  "total s = int (length (todos s))"

definition completedCount :: "HomeScreen \<Rightarrow> int" where
  "completedCount s = int (length (filter completed (todos s)))"

definition pendingCount :: "HomeScreen \<Rightarrow> int" where
  "pendingCount s = total s - completedCount s"

definition percent :: "HomeScreen \<Rightarrow> jsreal" where
  "percent s =
     (if total s = 0 then Fin 0 else roundPercent (js_divide (completedCount s) (total s)))"

subsection \<open>Calendar arithmetic of the host language\<close>

text \<open>
  The \<open>Date\<close> built-ins follow the language standard: days are counted from
  1970-01-01 in the proleptic Gregorian calendar, a time value is a number of
  milliseconds of magnitude at most \<open>8.64 * 10^15\<close>. \<open>dayFromYear\<close> and
  \<open>daysInYear\<close> are the standard's formulas. \<open>yearFromDay\<close> computes the year
  that contains a day number from an estimate by the mean year length, corrected
  by at most one year.
\<close>

definition msPerDay :: int where
  "msPerDay = 86400000"

definition validTime :: "int \<Rightarrow> bool" where
  "validTime t \<longleftrightarrow> - 8640000000000000 \<le> t \<and> t \<le> 8640000000000000"

definition daysInYear :: "int \<Rightarrow> int" where
  "daysInYear y =
     (if y mod 4 \<noteq> 0 then 365 else if y mod 100 \<noteq> 0 then 366
      else if y mod 400 \<noteq> 0 then 365 else 366)"

definition dayFromYear :: "int \<Rightarrow> int" where
  "dayFromYear y =
     365 * (y - 1970) + (y - 1969) div 4 - (y - 1901) div 100 + (y - 1601) div 400"

definition yearFromDay :: "int \<Rightarrow> int" where
  "yearFromDay dn =
     (let y0 = 1970 + (400 * dn) div 146097 in
      if dn < dayFromYear y0 then y0 - 1
      else if dayFromYear (y0 + 1) \<le> dn then y0 + 1
      else y0)"

definition leapDay :: "int \<Rightarrow> int" where
  "leapDay y = (if daysInYear y = 366 then 1 else 0)"

text \<open>
  The month (0 to 11) of a day within its year and the day number on which a month
  starts, for a year with \<open>leap\<close> (0 or 1) leap days.
\<close>

definition monthFromDayInYear :: "int \<Rightarrow> int \<Rightarrow> int" where
  "monthFromDayInYear leap d =
     (if d < 31 then 0 else if d < 59 + leap then 1 else if d < 90 + leap then 2
      else if d < 120 + leap then 3 else if d < 151 + leap then 4
      else if d < 181 + leap then 5 else if d < 212 + leap then 6
      else if d < 243 + leap then 7 else if d < 273 + leap then 8
      else if d < 304 + leap then 9 else if d < 334 + leap then 10 else 11)"

definition firstDayOfMonth :: "int \<Rightarrow> int \<Rightarrow> int" where
  "firstDayOfMonth leap m =
     (if m = 0 then 0 else if m = 1 then 31 else if m = 2 then 59 + leap
      else if m = 3 then 90 + leap else if m = 4 then 120 + leap
      else if m = 5 then 151 + leap else if m = 6 then 181 + leap
      else if m = 7 then 212 + leap else if m = 8 then 243 + leap
      else if m = 9 then 273 + leap else if m = 10 then 304 + leap else 334 + leap)"

definition daysInMonth :: "int \<Rightarrow> int \<Rightarrow> int" where
  "daysInMonth y m =
     (if m = 2 then 28 + leapDay y
      else if m = 4 \<or> m = 6 \<or> m = 9 \<or> m = 11 then 30 else 31)"

text \<open>\<open>MakeDay\<close> for a month \<open>m\<close> from 1 to 12; a day beyond the month runs on.\<close>

definition makeDay :: "int \<Rightarrow> int \<Rightarrow> int \<Rightarrow> int" where
  "makeDay y m d = dayFromYear y + firstDayOfMonth (leapDay y) (m - 1) + d - 1"

subsection \<open>Parsing a date-time string\<close>

text \<open>The value of a decimal digit, looked up in a table.\<close>

definition digitTable :: "(char \<times> int) list" where
  "digitTable =
     [(CHR ''0'', 0), (CHR ''1'', 1), (CHR ''2'', 2), (CHR ''3'', 3), (CHR ''4'', 4),
      (CHR ''5'', 5), (CHR ''6'', 6), (CHR ''7'', 7), (CHR ''8'', 8), (CHR ''9'', 9)]"

definition digitOf :: "char \<Rightarrow> int option" where
  "digitOf c = map_of digitTable c"

definition isDigit :: "char \<Rightarrow> bool" where
  "isDigit c \<longleftrightarrow> digitOf c \<noteq> None"

definition digitsValue :: "string \<Rightarrow> int" where
  "digitsValue ds = foldl (\<lambda>acc c. 10 * acc + (case digitOf c of None \<Rightarrow> 0 | Some d \<Rightarrow> d)) 0 ds"

text \<open>A field of exactly \<open>n\<close> digits, and a separator character.\<close>

definition fixedNumber :: "nat \<Rightarrow> string \<Rightarrow> (int \<times> string) option" where
  "fixedNumber n s =
     (if length s < n \<or> \<not> list_all isDigit (take n s) then None
      else Some (digitsValue (take n s), drop n s))"

definition expect :: "char \<Rightarrow> string \<Rightarrow> string option" where
  "expect c s = (case s of [] \<Rightarrow> None | x # r \<Rightarrow> if x = c then Some r else None)"

definition offsetSign :: "string \<Rightarrow> (int \<times> string) option" where
  "offsetSign s =
     (case s of [] \<Rightarrow> None
      | x # r \<Rightarrow> if x = CHR ''+'' then Some (1, r)
                 else if x = CHR ''-'' then Some (- 1, r) else None)"

text \<open>
  The year of a date-time string: four digits, or a sign and six digits (the
  expanded year; minus zero is excluded). The unpadded year that
  \<open>makeDateFromBeijingParts\<close> writes has the first form from 1000 to 9999 and the
  second from -100000 down.
\<close>

definition yearField :: "string \<Rightarrow> (int \<times> string) option" where
  "yearField s =
     (case offsetSign s of
        None \<Rightarrow> fixedNumber 4 s
      | Some (sg, r) \<Rightarrow>
          (case fixedNumber 6 r of
             None \<Rightarrow> None
           | Some (y, r') \<Rightarrow> if sg < 0 \<and> y = 0 then None else Some (sg * y, r')))"

text \<open>
  The fields of \<open>YYYY-MM-DDTHH:mm:ss+HH:mm\<close>, the one form of the standard's
  date-time format that \<open>makeDateFromBeijingParts\<close> can produce.
\<close>

definition isoFields ::
  "string \<Rightarrow> (int \<times> int \<times> int \<times> int \<times> int \<times> int \<times> int \<times> int \<times> int) option" where
  "isoFields s0 =
     Option.bind (yearField s0) (\<lambda>(y, s).
     Option.bind (expect CHR ''-'' s) (\<lambda>s.
     Option.bind (fixedNumber 2 s) (\<lambda>(m, s).
     Option.bind (expect CHR ''-'' s) (\<lambda>s.
     Option.bind (fixedNumber 2 s) (\<lambda>(d, s).
     Option.bind (expect CHR ''T'' s) (\<lambda>s.
     Option.bind (fixedNumber 2 s) (\<lambda>(hh, s).
     Option.bind (expect CHR '':'' s) (\<lambda>s.
     Option.bind (fixedNumber 2 s) (\<lambda>(mm, s).
     Option.bind (expect CHR '':'' s) (\<lambda>s.
     Option.bind (fixedNumber 2 s) (\<lambda>(ss, s).
     Option.bind (offsetSign s) (\<lambda>(sg, s).
     Option.bind (fixedNumber 2 s) (\<lambda>(oh, s).
     Option.bind (expect CHR '':'' s) (\<lambda>s.
     Option.bind (fixedNumber 2 s) (\<lambda>(om, s).
       if s = [] then Some (y, m, d, hh, mm, ss, sg, oh, om) else None)))))))))))))))"

text \<open>
  \<open>new Date(iso).getTime()\<close>. A string outside the format, or with a month, day,
  hour, minute or second out of range, gives an invalid date (\<open>NaN\<close>); hour 24 is
  the end of the day. Engines differ on a day from 29 to 31 that the month does
  not have: with \<open>lenient\<close> the date runs on into the next month (V8), without it
  the date is invalid.
\<close>

definition Date_parse :: "bool \<Rightarrow> string \<Rightarrow> jsnum" where
  "Date_parse lenient str =
     (case isoFields str of
        None \<Rightarrow> NaN
      | Some (y, m, d, hh, mm, ss, sg, oh, om) \<Rightarrow>
          if m < 1 \<or> 12 < m \<or> d < 1 \<or> 31 < d \<or> (\<not> lenient \<and> daysInMonth y m < d) then NaN
          else if 24 < hh \<or> 59 < mm \<or> 59 < ss \<or> (hh = 24 \<and> (mm \<noteq> 0 \<or> ss \<noteq> 0)) then NaN
          else if 23 < oh \<or> 59 < om then NaN
          else
            let t = makeDay y m d * msPerDay + hh * 3600000 + mm * 60000 + ss * 1000
                    - sg * (oh * 3600000 + om * 60000)
            in if validTime t then Num t else NaN)"

subsection \<open>Civil time at the fixed offset of eight hours\<close>

record BeijingParts =
  year :: int
  month :: int
  day :: int
  hour :: int
  minute :: int

text \<open>
  \<open>getBeijingParts(ts)\<close>. The shifted time is read through a \<open>Date\<close>; out of the
  range of time values the date is invalid and every field is \<open>NaN\<close>, which is the
  result \<open>None\<close> here.
\<close>

definition getBeijingParts :: "int \<Rightarrow> BeijingParts option" where
  "getBeijingParts ts =
     (let t = ts + 8 * 60 * 60 * 1000 in
      if \<not> validTime t then None
      else
        let dn = t div msPerDay;
            tod = t mod msPerDay;
            y = yearFromDay dn;
            diy = dn - dayFromYear y;
            m = monthFromDayInYear (leapDay y) diy
        in Some \<lparr> year = y, month = m + 1,
                  day = diy - firstDayOfMonth (leapDay y) m + 1,
                  hour = tod div 3600000,
                  minute = (tod div 60000) mod 60 \<rparr>)"

definition pad2 :: "int \<Rightarrow> string" where
  "pad2 n = (if n < 10 then CHR ''0'' # numToString n else numToString n)"

definition makeDateFromBeijingParts :: "bool \<Rightarrow> int \<Rightarrow> int \<Rightarrow> int \<Rightarrow> int \<Rightarrow> int \<Rightarrow> jsnum" where
  "makeDateFromBeijingParts lenient y m d hh mm =
     (let isoText = numToString y @ ''-'' @ pad2 m @ ''-'' @ pad2 d @ ''T'' @ pad2 hh @ '':''
                @ pad2 mm @ '':00+08:00''
      in Date_parse lenient isoText)"

text \<open>
  The round trip of the converter: the parts of \<open>t\<close> put together again. With an
  invalid date every part is \<open>NaN\<close>, the string built from them is no date, and the
  result is \<open>NaN\<close>.
\<close>

definition fromCivilToCivil :: "bool \<Rightarrow> int \<Rightarrow> jsnum" where
  "fromCivilToCivil lenient t =
     (case getBeijingParts t of
        None \<Rightarrow> NaN
      | Some p \<Rightarrow> makeDateFromBeijingParts lenient (year p) (month p) (day p) (hour p) (minute p))"

subsection \<open>The set-reminder request\<close>

text \<open>\<open>String.prototype.split\<close> with a one-character separator.\<close>

fun split :: "char \<Rightarrow> string \<Rightarrow> string list" where
  "split sep [] = [[]]"
| "split sep (c # cs) =
     (if c = sep then [] # split sep cs
      else (case split sep cs of [] \<Rightarrow> [[c]] | w # ws \<Rightarrow> (c # w) # ws))"

text \<open>
  \<open>parseInt(v, 10)\<close>: leading white space is skipped, a sign is read, and the
  longest run of digits that follows is the value; without a digit the result is
  \<open>NaN\<close>. Whatever follows the digits is ignored. The value is kept exact; the
  language rounds it to a double beyond \<open>2^53\<close>, where a field has far more
  digits than the date format admits.
\<close>

definition parseInt :: "string \<Rightarrow> jsnum" where
  "parseInt v =
     (let s = dropWhile isWhiteSpace v;
          sign = (case s of [] \<Rightarrow> 1 | c # r \<Rightarrow> if c = CHR ''-'' then - 1 else 1);
          s' = (case s of [] \<Rightarrow> [] | c # r \<Rightarrow> if c = CHR ''-'' \<or> c = CHR ''+'' then r else s);
          z = takeWhile isDigit s'
      in if z = [] then NaN else Num (sign * digitsValue z))"

text \<open>
  The handler of the confirm button of the reminder dialog. \<open>dateParts\<close> and
  \<open>timeParts\<close> are its two local arrays. It answers with the alert it shows, if
  any, and the state after it.
\<close>

definition dateParts :: "HomeScreen \<Rightarrow> jsnum list" where
  "dateParts s = map parseInt (split CHR ''-'' (trim (reminderDateText s)))"

definition timeParts :: "HomeScreen \<Rightarrow> jsnum list" where
  "timeParts s = map parseInt (split CHR '':'' (trim (reminderTimeText s)))"

definition confirmReminder ::
  "bool \<Rightarrow> platform_os \<Rightarrow> int \<Rightarrow> bool \<Rightarrow> bool \<Rightarrow> string \<Rightarrow> HomeScreen
     \<Rightarrow> alert option \<times> HomeScreen" where
  "confirmReminder lenient os now granted requested handle s =
     (if \<not> truthy (reminderTargetId s) then (None, s)
      else if length (dateParts s) \<noteq> 3 \<or> length (timeParts s) \<noteq> 2
              \<or> list_ex (\<lambda>n. n = NaN) (dateParts s) \<or> list_ex (\<lambda>n. n = NaN) (timeParts s)
      then (Some InvalidInput, s)
      else
        (case (dateParts s, timeParts s) of
           ([Num y, Num m, Num d], [Num hh, Num mm]) \<Rightarrow>
             let dt = makeDateFromBeijingParts lenient y m d hh mm in
             if js_le dt (Num now) then (Some NotFuture, s)
             else
               (case reminderTargetId s of
                  None \<Rightarrow> (None, s)
                | Some target \<Rightarrow>
                    let (shown, s1) =
                          scheduleReminder os now granted requested handle target dt s
                    in (shown, s1\<lparr> reminderModalVisible := False \<rparr>))
         | _ \<Rightarrow> (Some InvalidInput, s)))"

text \<open>
  A set-reminder request for task \<open>i\<close>: the dialog is open on the task
  (\<open>openReminderPicker\<close>) and holds the two texts the user typed; then the
  confirm button is pressed.
\<close>

definition reminderRequest :: "string \<Rightarrow> string \<Rightarrow> string \<Rightarrow> HomeScreen \<Rightarrow> HomeScreen" where
  "reminderRequest i dateText timeText s =
     s\<lparr> reminderTargetId := Some i, reminderDateText := dateText,
        reminderTimeText := timeText, reminderModalVisible := True \<rparr>"

definition setReminder ::
  "bool \<Rightarrow> platform_os \<Rightarrow> int \<Rightarrow> bool \<Rightarrow> bool \<Rightarrow> string \<Rightarrow> string \<Rightarrow> string \<Rightarrow> string
     \<Rightarrow> HomeScreen \<Rightarrow> alert option \<times> HomeScreen" where
  "setReminder lenient os now granted requested handle i dateText timeText s =
     confirmReminder lenient os now granted requested handle (reminderRequest i dateText timeText s)"

subsection \<open>User actions as a transition system\<close>

datatype action =
    SetDraftTitle string
  | AddTodo int
  | DeleteTodo string
  | ToggleComplete string
  | StartEdit string string
  | SetEditingText string
  | SaveEdit
  | CancelEdit
  | CompleteAll
  | DeleteAll bool
  | ClearCompleted
  | ScheduleReminder int bool bool string string jsnum
  | ClearReminder string

fun step :: "platform_os \<Rightarrow> action \<Rightarrow> HomeScreen \<Rightarrow> HomeScreen" where
  "step os (SetDraftTitle txt) s = setDraftTitle txt s"
| "step os (AddTodo now) s = handleAddTodo now s"
| "step os (DeleteTodo i) s = handleDeleteTodo i s"
| "step os (ToggleComplete i) s = toggleComplete i s"
| "step os (StartEdit i current) s = startEdit i current s"
| "step os (SetEditingText txt) s = setEditingText txt s"
| "step os SaveEdit s = saveEdit s"
| "step os CancelEdit s = cancelEdit s"
| "step os CompleteAll s = completeAll s"
| "step os (DeleteAll ok) s = deleteAll os ok s"
| "step os ClearCompleted s = clearCompleted s"
| "step os (ScheduleReminder now granted requested handle i stamp) s =
     snd (scheduleReminder os now granted requested handle i stamp s)"
| "step os (ClearReminder i) s = clearReminder i s"

text \<open>Running a sequence of actions, the first of the list first.\<close>

fun run :: "platform_os \<Rightarrow> action list \<Rightarrow> HomeScreen \<Rightarrow> HomeScreen" where
  "run os [] s = s"
| "run os (a # as) s = run os as (step os a s)"

subsection \<open>Armed triggers\<close>

text \<open>
  A fallback timer is armed for a task id when the table holds an entry for it; a
  platform trigger is armed for a handle when the service has it scheduled. A
  task has an armed trigger when either holds for its id or for its (non-empty)
  handle.
\<close>

definition timerArmed :: "HomeScreen \<Rightarrow> string \<Rightarrow> bool" where
  "timerArmed s i \<longleftrightarrow> i \<in> fst ` set (webTimers s)"

definition handleArmed :: "HomeScreen \<Rightarrow> string \<Rightarrow> bool" where
  "handleArmed s h \<longleftrightarrow> (case notifications s of None \<Rightarrow> False | Some S \<Rightarrow> h \<in> S)"

definition armed :: "HomeScreen \<Rightarrow> TodoItem \<Rightarrow> bool" where
  "armed s t \<longleftrightarrow>
     timerArmed s (id' t)
     \<or> (case notificationId t of None \<Rightarrow> False | Some h \<Rightarrow> h \<noteq> [] \<and> handleArmed s h)"

text \<open>The invariant of the data model on the two reminder fields.\<close>

definition handleImpliesStamp :: "TodoItem \<Rightarrow> bool" where
  "handleImpliesStamp t \<longleftrightarrow> notificationId t = None \<or> reminderTimestamp t \<noteq> None"

section \<open>Properties\<close>

subsection \<open>Evaluation on concrete inputs\<close>

lemmas str_eval = numToString_def natToString.simps digitChar_def pad2_def trim_def isWhiteSpace_def

lemmas parse_eval = isoFields_def yearField_def fixedNumber_def expect_def offsetSign_def isDigit_def
  digitOf_def digitTable_def digitsValue_def parseInt_def dateParts_def timeParts_def

lemmas date_eval = makeDateFromBeijingParts_def Date_parse_def makeDay_def dayFromYear_def
  firstDayOfMonth_def leapDay_def daysInYear_def msPerDay_def validTime_def daysInMonth_def

lemmas store_eval = initial_def setDraftTitle_def handleAddTodo_def toggleComplete_def
  startEdit_def setEditingText_def saveEdit_def
  scheduleReminder_def clearReminder_def clearReminderIn_def timerDelete_def timerSet_def
  cancelScheduledNotification_def ensurePermission_def deleteAll_def clearCompleted_def
  reminderRequest_def setReminder_def confirmReminder_def Let_def

lemmas armed_eval = armed_def timerArmed_def handleArmed_def

subsection \<open>Adding, editing and completing tasks\<close>

text \<open>
  C7. With a draft title whose trimmed form is not empty, \<open>handleAddTodo\<close> puts
  exactly one new task in front of the list: the task has the trimmed title, is not
  completed and has no reminder, and the tasks already listed follow unchanged, so
  the length grows by one. With a draft whose trimmed form is empty it does
  nothing.
\<close>

theorem C7_handleAddTodo:
  "(trim ttl \<noteq> [] \<longrightarrow>
      todos (handleAddTodo now (setDraftTitle ttl s)) =
        \<lparr> id' = numToString now, title = trim ttl, completed = False,
          reminderTimestamp = None, notificationId = None \<rparr> # todos s
      \<and> length (todos (handleAddTodo now (setDraftTitle ttl s))) = length (todos s) + 1)
   \<and> (trim ttl = [] \<longrightarrow>
      handleAddTodo now (setDraftTitle ttl s) = setDraftTitle ttl s
      \<and> todos (handleAddTodo now (setDraftTitle ttl s)) = todos s)"
  by (simp add: handleAddTodo_def setDraftTitle_def Let_def)

theorem C7_handleAddTodo_witness:
  "trim ''  Buy milk '' \<noteq> [] \<and> trim ''   '' = []
   \<and> todos (handleAddTodo 1735689600000 (setDraftTitle ''  Buy milk '' (initial Web None))) =
       [\<lparr> id' = ''1735689600000'', title = ''Buy milk'', completed = False,
          reminderTimestamp = None, notificationId = None \<rparr>]
   \<and> todos (handleAddTodo 1735689600000 (setDraftTitle ''   '' (initial Web None))) = []"
  using C7_handleAddTodo [of "''  Buy milk ''" 1735689600000 "initial Web None"]
        C7_handleAddTodo [of "''   ''" 1735689600000 "initial Web None"]
  by (simp add: str_eval initial_def setDraftTitle_def)

lemma map_title_frame:
  "map id' (map (\<lambda>t. if id' t = i then t\<lparr> title := x \<rparr> else t) xs) = map id' xs"
  "map completed (map (\<lambda>t. if id' t = i then t\<lparr> title := x \<rparr> else t) xs) = map completed xs"
  "map reminderTimestamp (map (\<lambda>t. if id' t = i then t\<lparr> title := x \<rparr> else t) xs)
     = map reminderTimestamp xs"
  "map notificationId (map (\<lambda>t. if id' t = i then t\<lparr> title := x \<rparr> else t) xs)
     = map notificationId xs"
  by (induction xs) simp_all

text \<open>
  C8. A task under edit is the one whose id was given to \<open>startEdit\<close>. When the
  edit is saved with a text whose trimmed form is empty, the list is the one from
  before \<open>startEdit\<close>, so the title is unchanged. With a non-empty trimmed text,
  the title of the task with that id becomes the trimmed text; its other fields
  and every other task stay as they were. In both cases the edit is closed.
\<close>

theorem C8_saveEdit:
  assumes "eid \<noteq> []"
  shows "(trim txt = [] \<longrightarrow>
            todos (saveEdit (setEditingText txt (startEdit eid cur s))) = todos s)
       \<and> (trim txt \<noteq> [] \<longrightarrow>
            todos (saveEdit (setEditingText txt (startEdit eid cur s))) =
              map (\<lambda>t. if id' t = eid then t\<lparr> title := trim txt \<rparr> else t) (todos s))
       \<and> map id' (todos (saveEdit (setEditingText txt (startEdit eid cur s)))) = map id' (todos s)
       \<and> map completed (todos (saveEdit (setEditingText txt (startEdit eid cur s))))
            = map completed (todos s)
       \<and> map reminderTimestamp (todos (saveEdit (setEditingText txt (startEdit eid cur s))))
            = map reminderTimestamp (todos s)
       \<and> map notificationId (todos (saveEdit (setEditingText txt (startEdit eid cur s))))
            = map notificationId (todos s)
       \<and> editingId (saveEdit (setEditingText txt (startEdit eid cur s))) = None"
  using assms
  by (simp add: saveEdit_def setEditingText_def startEdit_def Let_def map_title_frame)

theorem C8_saveEdit_witness:
  "''1000'' \<noteq> [] \<and> trim ''  '' = [] \<and> trim '' tea '' \<noteq> []
   \<and> map title (todos (saveEdit (setEditingText ''  '' (startEdit ''1000'' ''milk''
        (run Web [SetDraftTitle ''milk'', AddTodo 1000, SetDraftTitle ''jam'', AddTodo 2000]
           (initial Web None)))))) = [''jam'', ''milk'']
   \<and> map title (todos (saveEdit (setEditingText '' tea '' (startEdit ''1000'' ''milk''
        (run Web [SetDraftTitle ''milk'', AddTodo 1000, SetDraftTitle ''jam'', AddTodo 2000]
           (initial Web None)))))) = [''jam'', ''tea'']"
  using C8_saveEdit [of "''1000''" "''  ''" "''milk''"
          "run Web [SetDraftTitle ''milk'', AddTodo 1000, SetDraftTitle ''jam'', AddTodo 2000]
             (initial Web None)"]
        C8_saveEdit [of "''1000''" "'' tea ''" "''milk''"
          "run Web [SetDraftTitle ''milk'', AddTodo 1000, SetDraftTitle ''jam'', AddTodo 2000]
             (initial Web None)"]
  by (simp add: str_eval initial_def setDraftTitle_def handleAddTodo_def Let_def)

text \<open>
  C9. \<open>completeAll\<close> sets \<open>completed\<close> on every task and changes nothing else: the
  list keeps its length and order, and every task keeps its id, title, reminder
  timestamp and notification handle. The timers and the scheduled notifications
  are untouched.
\<close>

theorem C9_completeAll_frame:
  "length (todos (completeAll s)) = length (todos s)
   \<and> map completed (todos (completeAll s)) = replicate (length (todos s)) True
   \<and> map id' (todos (completeAll s)) = map id' (todos s)
   \<and> map title (todos (completeAll s)) = map title (todos s)
   \<and> map reminderTimestamp (todos (completeAll s)) = map reminderTimestamp (todos s)
   \<and> map notificationId (todos (completeAll s)) = map notificationId (todos s)
   \<and> todos (completeAll s) = map (\<lambda>t. t\<lparr> completed := True \<rparr>) (todos s)
   \<and> webTimers (completeAll s) = webTimers s
   \<and> notifications (completeAll s) = notifications s"
  by (simp add: completeAll_def map_replicate_const o_def)

text \<open>
  C10. The counters add up, \<open>total = completedCount + pendingCount\<close>, with
  \<open>0 <= completedCount <= total\<close>. The percentage is always a finite number: the
  quotient is taken only when \<open>total\<close> is not zero. For the empty list it is 0.
\<close>

theorem C10_counters:
  "total s = completedCount s + pendingCount s
   \<and> 0 \<le> completedCount s \<and> completedCount s \<le> total s \<and> 0 \<le> pendingCount s
   \<and> percent s \<noteq> NotFinite
   \<and> percent (s\<lparr> todos := [] \<rparr>) = Fin 0"
  by (simp add: total_def completedCount_def pendingCount_def percent_def js_divide_def)

subsection \<open>Removal and the reminders of removed tasks\<close>

lemma deleteAll_keeps_triggers:
  "webTimers (deleteAll os ok s) = webTimers s \<and> notifications (deleteAll os ok s) = notifications s"
  by (simp add: deleteAll_def)

text \<open>
  C1. \<open>deleteAll\<close> empties the list but cancels nothing: it never calls
  \<open>clearReminder\<close>. On the web, a task with a pending fallback timer is deleted and
  the timer stays in the table; on Android, a task with a scheduled notification
  is deleted and the notification stays scheduled. The single delete and
  \<open>clearCompleted\<close> do cancel before they remove.
\<close>

theorem C1_deleteAll_leaves_triggers_armed:
  "todos (run Web [SetDraftTitle ''a'', AddTodo 1000,
                   ScheduleReminder 2000 True True [] ''1000'' (Num 5000),
                   DeleteAll True] (initial Web None)) = []
   \<and> webTimers (run Web [SetDraftTitle ''a'', AddTodo 1000,
                   ScheduleReminder 2000 True True [] ''1000'' (Num 5000),
                   DeleteAll True] (initial Web None)) = [(''1000'', 3000)]
   \<and> timerArmed (run Web [SetDraftTitle ''a'', AddTodo 1000,
                   ScheduleReminder 2000 True True [] ''1000'' (Num 5000),
                   DeleteAll True] (initial Web None)) ''1000''
   \<and> todos (run Android [SetDraftTitle ''a'', AddTodo 1000,
                   ScheduleReminder 2000 True True ''h1'' ''1000'' (Num 5000),
                   DeleteAll True] (initial Android (Some {}))) = []
   \<and> notifications (run Android [SetDraftTitle ''a'', AddTodo 1000,
                   ScheduleReminder 2000 True True ''h1'' ''1000'' (Num 5000),
                   DeleteAll True] (initial Android (Some {}))) = Some {''h1''}
   \<and> handleArmed (run Android [SetDraftTitle ''a'', AddTodo 1000,
                   ScheduleReminder 2000 True True ''h1'' ''1000'' (Num 5000),
                   DeleteAll True] (initial Android (Some {}))) ''h1''"
  by (simp add: str_eval store_eval armed_eval)











subsection \<open>Task ids\<close>

text \<open>
  C3. The id of a new task is the decimal text of the clock reading. Two adds at
  the same reading give two tasks with the same id, so the ids of a reachable list
  need not be pairwise distinct.
\<close>

theorem C3_same_clock_same_id:
  "map id' (todos (run Web [SetDraftTitle ''a'', AddTodo 1735689600000,
                            SetDraftTitle ''b'', AddTodo 1735689600000] (initial Web None)))
     = [''1735689600000'', ''1735689600000'']
   \<and> \<not> distinct (map id' (todos (run Web [SetDraftTitle ''a'', AddTodo 1735689600000,
                            SetDraftTitle ''b'', AddTodo 1735689600000] (initial Web None))))"
  by (simp add: str_eval store_eval)

subsection \<open>The invariant on the reminder fields\<close>

lemma clearReminderIn_inv:
  "list_all handleImpliesStamp (todos s) \<Longrightarrow>
   list_all handleImpliesStamp (todos (clearReminderIn snap i s))"
  by (auto simp add: clearReminderIn_def Let_def list_all_iff handleImpliesStamp_def)

lemma fold_clearReminderIn_inv:
  "list_all handleImpliesStamp (todos s) \<Longrightarrow>
   list_all handleImpliesStamp (todos (fold (\<lambda>t. clearReminderIn snap (id' t)) xs s))"
  by (induction xs arbitrary: s) (simp_all add: clearReminderIn_inv)

lemma scheduleReminder_inv:
  "list_all handleImpliesStamp (todos s) \<Longrightarrow>
   list_all handleImpliesStamp (todos (snd (scheduleReminder os now g r h i stamp s)))"
  using clearReminderIn_inv [of s "todos s" i]
  by (auto simp add: scheduleReminder_def clearReminder_def Let_def list_all_iff handleImpliesStamp_def)

lemma step_inv:
  "list_all handleImpliesStamp (todos s) \<Longrightarrow> list_all handleImpliesStamp (todos (step os a s))"
proof (cases a)
  case (AddTodo now)
  then show "list_all handleImpliesStamp (todos s) \<Longrightarrow> ?thesis"
    by (simp add: handleAddTodo_def Let_def handleImpliesStamp_def)
next
  case (DeleteTodo i)
  then show "list_all handleImpliesStamp (todos s) \<Longrightarrow> ?thesis"
    using clearReminderIn_inv [of s "todos s" i]
    by (simp add: handleDeleteTodo_def clearReminder_def Let_def list_all_iff)
next
  case (ToggleComplete i)
  then show "list_all handleImpliesStamp (todos s) \<Longrightarrow> ?thesis"
    by (auto simp add: toggleComplete_def list_all_iff handleImpliesStamp_def)
next
  case SaveEdit
  then show "list_all handleImpliesStamp (todos s) \<Longrightarrow> ?thesis"
    by (auto simp add: saveEdit_def Let_def list_all_iff handleImpliesStamp_def)
next
  case CompleteAll
  then show "list_all handleImpliesStamp (todos s) \<Longrightarrow> ?thesis"
    by (auto simp add: completeAll_def list_all_iff handleImpliesStamp_def)
next
  case (DeleteAll ok)
  then show "list_all handleImpliesStamp (todos s) \<Longrightarrow> ?thesis"
    by (simp add: deleteAll_def)
next
  case ClearCompleted
  then show "list_all handleImpliesStamp (todos s) \<Longrightarrow> ?thesis"
    using fold_clearReminderIn_inv [of "s\<lparr> todos := filter (\<lambda>t. \<not> completed t) (todos s) \<rparr>"]
    by (simp add: clearCompleted_def Let_def list_all_iff)
next
  case (ScheduleReminder now g r h i stamp)
  then show "list_all handleImpliesStamp (todos s) \<Longrightarrow> ?thesis"
    by (simp add: scheduleReminder_inv)
next
  case (ClearReminder i)
  then show "list_all handleImpliesStamp (todos s) \<Longrightarrow> ?thesis"
    by (simp add: clearReminder_def clearReminderIn_inv)
qed (simp_all add: setDraftTitle_def startEdit_def setEditingText_def cancelEdit_def)

lemma run_inv:
  "list_all handleImpliesStamp (todos s) \<Longrightarrow> list_all handleImpliesStamp (todos (run os acts s))"
  by (induction acts arbitrary: s) (simp_all add: step_inv)

text \<open>
  C5. In every state reached from the empty list by any sequence of actions, every
  task that has a notification handle has a reminder timestamp; and each single
  action keeps this true of any list for which it holds.
\<close>

theorem C5_handle_implies_stamp:
  "list_all handleImpliesStamp (todos (run os acts (initial os svc)))
   \<and> (list_all handleImpliesStamp (todos s) \<longrightarrow>
        list_all handleImpliesStamp (todos (step os a s)))"
  using run_inv [of "initial os svc" os acts] step_inv [of s os a]
  by (simp add: initial_def)

theorem C5_handle_implies_stamp_witness:
  "map notificationId (todos (run Android [SetDraftTitle ''a'', AddTodo 1000,
        ScheduleReminder 2000 True True ''h1'' ''1000'' (Num 5000)] (initial Android (Some {}))))
     = [Some ''h1'']
   \<and> map reminderTimestamp (todos (run Android [SetDraftTitle ''a'', AddTodo 1000,
        ScheduleReminder 2000 True True ''h1'' ''1000'' (Num 5000)] (initial Android (Some {}))))
     = [Some (Num 5000)]
   \<and> list_all handleImpliesStamp (todos (run Android [SetDraftTitle ''a'', AddTodo 1000,
        ScheduleReminder 2000 True True ''h1'' ''1000'' (Num 5000)] (initial Android (Some {}))))
   \<and> list_all handleImpliesStamp (todos (step Android (ClearReminder ''1000'')
        (run Android [SetDraftTitle ''a'', AddTodo 1000,
        ScheduleReminder 2000 True True ''h1'' ''1000'' (Num 5000)] (initial Android (Some {})))))
   \<and> map notificationId (todos (step Android (ClearReminder ''1000'')
        (run Android [SetDraftTitle ''a'', AddTodo 1000,
        ScheduleReminder 2000 True True ''h1'' ''1000'' (Num 5000)] (initial Android (Some {})))))
     = [None]"
  using C5_handle_implies_stamp [of Android "[SetDraftTitle ''a'', AddTodo 1000,
        ScheduleReminder 2000 True True ''h1'' ''1000'' (Num 5000)]" "Some {}"
        "run Android [SetDraftTitle ''a'', AddTodo 1000,
        ScheduleReminder 2000 True True ''h1'' ''1000'' (Num 5000)] (initial Android (Some {}))"
        "ClearReminder ''1000''"]
  by (simp add: str_eval store_eval)

subsection \<open>Civil time: digits and fields\<close>

lemma digitOf_digitChar: "d < 10 \<Longrightarrow> digitOf (digitChar d) = Some (int d)"
proof -
  assume "d < 10"
  then have "d = 0 \<or> d = 1 \<or> d = 2 \<or> d = 3 \<or> d = 4 \<or> d = 5 \<or> d = 6 \<or> d = 7 \<or> d = 8 \<or> d = 9"
    by arith
  then show ?thesis
    by (elim disjE) (simp_all add: digitChar_def digitOf_def digitTable_def)
qed

lemma isDigit_digitChar: "d < 10 \<Longrightarrow> isDigit (digitChar d)"
  by (simp add: isDigit_def digitOf_digitChar)

lemma natToString_1: "n < 10 \<Longrightarrow> natToString n = [digitChar n]"
  by (subst natToString.simps, simp)

lemma natToString_2: "10 \<le> n \<Longrightarrow> n < 100 \<Longrightarrow>
    natToString n = [digitChar (n div 10), digitChar (n mod 10)]"
proof -
  assume n: "10 \<le> n" "n < 100"
  then have "n div 10 < 10" by arith
  then have "natToString (n div 10) = [digitChar (n div 10)]" by (rule natToString_1)
  moreover have "natToString n = natToString (n div 10) @ [digitChar (n mod 10)]"
    using n by (subst natToString.simps) simp
  ultimately show ?thesis by simp
qed

lemma natToString_3: "100 \<le> n \<Longrightarrow> n < 1000 \<Longrightarrow>
    natToString n = [digitChar (n div 10 div 10), digitChar (n div 10 mod 10), digitChar (n mod 10)]"
proof -
  assume n: "100 \<le> n" "n < 1000"
  then have "10 \<le> n div 10" "n div 10 < 100" by arith+
  then have "natToString (n div 10) = [digitChar (n div 10 div 10), digitChar (n div 10 mod 10)]"
    by (rule natToString_2)
  moreover have "natToString n = natToString (n div 10) @ [digitChar (n mod 10)]"
    using n by (subst natToString.simps) simp
  ultimately show ?thesis by simp
qed

lemma natToString_4: "1000 \<le> n \<Longrightarrow> n < 10000 \<Longrightarrow>
    natToString n = [digitChar (n div 10 div 10 div 10), digitChar (n div 10 div 10 mod 10),
                     digitChar (n div 10 mod 10), digitChar (n mod 10)]"
proof -
  assume n: "1000 \<le> n" "n < 10000"
  then have "100 \<le> n div 10" "n div 10 < 1000" by arith+
  then have "natToString (n div 10) = [digitChar (n div 10 div 10 div 10),
       digitChar (n div 10 div 10 mod 10), digitChar (n div 10 mod 10)]"
    by (rule natToString_3)
  moreover have "natToString n = natToString (n div 10) @ [digitChar (n mod 10)]"
    using n by (subst natToString.simps) simp
  ultimately show ?thesis by simp
qed


lemma fixedNumber_pad2:
  assumes "0 \<le> n" "n \<le> 99"
  shows "fixedNumber 2 (pad2 n @ rest) = Some (n, rest)"
proof (cases "n < 10")
  case True
  then have s: "pad2 n = [CHR ''0'', digitChar (nat n)]"
    using assms by (simp add: pad2_def numToString_def natToString_1)
  have d: "digitOf (digitChar (nat n)) = Some n"
    using digitOf_digitChar [of "nat n"] True assms by simp
  have z: "digitOf CHR ''0'' = Some 0" by (simp add: digitOf_def digitTable_def)
  show ?thesis
    by (simp add: s fixedNumber_def isDigit_def digitsValue_def d z)
next
  case False
  then have s: "pad2 n = [digitChar (nat n div 10), digitChar (nat n mod 10)]"
    using assms by (simp add: pad2_def numToString_def natToString_2)
  have "nat n div 10 < 10" using assms by arith
  then have d1: "digitOf (digitChar (nat n div 10)) = Some (int (nat n div 10))"
    by (rule digitOf_digitChar)
  have d2: "digitOf (digitChar (nat n mod 10)) = Some (int (nat n mod 10))"
    by (rule digitOf_digitChar) simp
  have v: "10 * int (nat n div 10) + int (nat n mod 10) = n"
    using assms by (simp add: zdiv_int zmod_int)
  show ?thesis
    using v by (simp add: s fixedNumber_def isDigit_def digitsValue_def d1 d2)
qed

lemma fixedNumber_year:
  assumes "1000 \<le> y" "y \<le> 9999"
  shows "fixedNumber 4 (numToString y @ rest) = Some (y, rest)"
proof -
  define n where "n = nat y"
  have n: "1000 \<le> n" "n < 10000" "int n = y" using assms by (simp_all add: n_def)
  have s: "numToString y = [digitChar (n div 10 div 10 div 10), digitChar (n div 10 div 10 mod 10),
                     digitChar (n div 10 mod 10), digitChar (n mod 10)]"
    using n assms natToString_4 [of n] by (simp add: numToString_def n_def)
  have "n div 10 div 10 div 10 < 10" using n by arith
  then have d1: "digitOf (digitChar (n div 10 div 10 div 10)) = Some (int (n div 10 div 10 div 10))"
    by (rule digitOf_digitChar)
  have d2: "digitOf (digitChar (n div 10 div 10 mod 10)) = Some (int (n div 10 div 10 mod 10))"
    by (rule digitOf_digitChar) simp
  have d3: "digitOf (digitChar (n div 10 mod 10)) = Some (int (n div 10 mod 10))"
    by (rule digitOf_digitChar) simp
  have d4: "digitOf (digitChar (n mod 10)) = Some (int (n mod 10))"
    by (rule digitOf_digitChar) simp
  have e1: "n = 10 * (n div 10) + n mod 10" by simp
  have e2: "n div 10 = 10 * (n div 10 div 10) + n div 10 mod 10" by simp
  have e3: "n div 10 div 10 = 10 * (n div 10 div 10 div 10) + n div 10 div 10 mod 10" by simp
  have "10 * (10 * (10 * (n div 10 div 10 div 10) + n div 10 div 10 mod 10) + n div 10 mod 10)
          + n mod 10 = n"
    by simp
  then have "int (10 * (10 * (10 * (n div 10 div 10 div 10) + n div 10 div 10 mod 10) + n div 10 mod 10)
          + n mod 10) = y"
    using n(3) by simp
  then have v: "10 * (10 * (10 * int (n div 10 div 10 div 10) + int (n div 10 div 10 mod 10))
                  + int (n div 10 mod 10)) + int (n mod 10) = y"
    by (simp only: of_nat_add of_nat_mult of_nat_numeral)
  show ?thesis
    using v by (simp add: s fixedNumber_def isDigit_def digitsValue_def d1 d2 d3 d4)
qed

text \<open>Year arithmetic: the year found by \<open>yearFromDay\<close> contains the day.\<close>

lemma div_succ:
  fixes x n :: int
  assumes "0 < n"
  shows "(x + 1) div n = x div n + (if (x + 1) mod n = 0 then 1 else 0)"
proof -
  define q where "q = x div n"
  define r where "r = x mod n"
  have eq: "x = q * n + r" by (simp add: q_def r_def)
  have r: "0 \<le> r" "r < n" using assms by (simp_all add: r_def)
  have split: "x + 1 = q * n + (r + 1)" using eq by simp
  show ?thesis
  proof (cases "r + 1 = n")
    case True
    then have "x + 1 = (q + 1) * n" using split by (simp add: algebra_simps)
    then have "(x + 1) div n = q + 1" "(x + 1) mod n = 0"
      using assms by simp_all
    then show ?thesis by (simp add: q_def)
  next
    case False
    then have lt: "r + 1 < n" using r by simp
    have d: "(x + 1) div n = q + (r + 1) div n"
      unfolding split using assms by (simp only: div_mult_self3)
    have m: "(x + 1) mod n = r + 1"
      unfolding split using lt r by (simp add: mod_pos_pos_trivial)
    show ?thesis using d m lt r by (simp add: q_def div_pos_pos_trivial)
  qed
qed

lemma mod_shift:
  fixes y n :: int
  shows "(y - k * n) mod n = y mod n"
proof -
  have "y - k * n = y + (- k) * n" by simp
  then show ?thesis by (simp only: mod_mult_self1)
qed

lemma m4: "((y::int) - 1969 + 1) mod 4 = 0 \<longleftrightarrow> y mod 4 = 0"
  using mod_shift [of y 492 4] by simp

lemma m100: "((y::int) - 1901 + 1) mod 100 = 0 \<longleftrightarrow> y mod 100 = 0"
  using mod_shift [of y 19 100] by simp

lemma m400: "((y::int) - 1601 + 1) mod 400 = 0 \<longleftrightarrow> y mod 400 = 0"
  using mod_shift [of y 4 400] by simp

lemma m100_4: "(y::int) mod 100 = 0 \<Longrightarrow> y mod 4 = 0"
proof -
  assume "y mod 100 = 0"
  then have "100 dvd y" by (simp add: mod_eq_0_iff_dvd)
  moreover have "(4::int) dvd 100" by simp
  ultimately have "4 dvd y" by (rule dvd_trans [rotated])
  then show ?thesis by (simp add: mod_eq_0_iff_dvd)
qed

lemma m400_100: "(y::int) mod 400 = 0 \<Longrightarrow> y mod 100 = 0"
proof -
  assume "y mod 400 = 0"
  then have "400 dvd y" by (simp add: mod_eq_0_iff_dvd)
  moreover have "(100::int) dvd 400" by simp
  ultimately have "100 dvd y" by (rule dvd_trans [rotated])
  then show ?thesis by (simp add: mod_eq_0_iff_dvd)
qed

lemma dayFromYear_step: "dayFromYear (y + 1) = dayFromYear y + daysInYear y"
proof -
  have a: "(y + 1 - 1969) div 4 = (y - 1969) div 4 + (if y mod 4 = 0 then 1 else 0)"
    using div_succ [of 4 "y - 1969"] m4 [of y] by (simp add: algebra_simps)
  have b: "(y + 1 - 1901) div 100 = (y - 1901) div 100 + (if y mod 100 = 0 then 1 else 0)"
    using div_succ [of 100 "y - 1901"] m100 [of y] by (simp add: algebra_simps)
  have c: "(y + 1 - 1601) div 400 = (y - 1601) div 400 + (if y mod 400 = 0 then 1 else 0)"
    using div_succ [of 400 "y - 1601"] m400 [of y] by (simp add: algebra_simps)
  show ?thesis
    unfolding dayFromYear_def daysInYear_def a b c
    using m100_4 [of y] m400_100 [of y] by auto
qed

lemma floor_bounds:
  fixes x n :: int
  assumes "0 < n"
  shows "n * (x div n) \<le> x" and "x < n * (x div n) + n"
proof -
  have eq: "x = n * (x div n) + x mod n" by simp
  have "0 \<le> x mod n" "x mod n < n" using assms by simp_all
  then show "n * (x div n) \<le> x" and "x < n * (x div n) + n"
    using eq by linarith+
qed

lemma est_lower: "dayFromYear (1970 + (400 * dn) div 146097 - 1) \<le> dn"
proof -
  define q where "q = (400 * dn) div 146097"
  define a where "a = q div 4"
  define b where "b = (q + 68) div 100"
  define c where "c = (q + 368) div 400"
  have q: "146097 * q \<le> 400 * dn"
    unfolding q_def by (rule floor_bounds) simp
  have a: "4 * a \<le> q" unfolding a_def by (rule floor_bounds) simp
  have b: "q + 68 < 100 * b + 100" unfolding b_def by (rule floor_bounds) simp
  have c: "400 * c \<le> q + 368" unfolding c_def by (rule floor_bounds) simp
  have "365 * q - 365 + a - b + c \<le> dn"
    using q a b c by linarith
  then show ?thesis
    by (simp add: dayFromYear_def q_def a_def b_def c_def algebra_simps)
qed

lemma est_upper: "dn < dayFromYear (1970 + (400 * dn) div 146097 + 2)"
proof -
  define q where "q = (400 * dn) div 146097"
  define a where "a = (q + 3) div 4"
  define b where "b = (q + 71) div 100"
  define c where "c = (q + 371) div 400"
  have q: "400 * dn < 146097 * q + 146097"
    unfolding q_def by (rule floor_bounds) simp
  have a: "q + 3 < 4 * a + 4" unfolding a_def by (rule floor_bounds) simp
  have b: "100 * b \<le> q + 71" unfolding b_def by (rule floor_bounds) simp
  have c: "q + 371 < 400 * c + 400" unfolding c_def by (rule floor_bounds) simp
  have "dn < 365 * q + 730 + a - b + c"
    using q a b c by linarith
  then show ?thesis
    by (simp add: dayFromYear_def q_def a_def b_def c_def algebra_simps)
qed

lemma yearFromDay_bounds:
  "dayFromYear (yearFromDay dn) \<le> dn \<and> dn < dayFromYear (yearFromDay dn + 1)"
  using est_lower [of dn] est_upper [of dn]
  by (simp add: yearFromDay_def Let_def add.commute)


lemma dayInYear_bounds:
  "0 \<le> dn - dayFromYear (yearFromDay dn) \<and>
   dn - dayFromYear (yearFromDay dn) < 365 + leapDay (yearFromDay dn)"
proof -
  have "daysInYear (yearFromDay dn) = 365 + leapDay (yearFromDay dn)"
    by (simp add: leapDay_def daysInYear_def)
  then show ?thesis
    using yearFromDay_bounds [of dn] dayFromYear_step [of "yearFromDay dn"] by linarith
qed

lemma leapDay_cases: "leapDay y = 0 \<or> leapDay y = 1"
  by (simp add: leapDay_def)

lemma month_day_bounds:
  assumes "l = 0 \<or> l = 1" "0 \<le> d" "d < 365 + l"
  shows "0 \<le> monthFromDayInYear l d \<and> monthFromDayInYear l d \<le> 11
       \<and> 1 \<le> d - firstDayOfMonth l (monthFromDayInYear l d) + 1
       \<and> d - firstDayOfMonth l (monthFromDayInYear l d) + 1 \<le> 31"
  using assms unfolding monthFromDayInYear_def firstDayOfMonth_def
  by (elim disjE) (simp_all)

text \<open>The string built by \<open>makeDateFromBeijingParts\<close> and its parse.\<close>

lemma expect_Cons: "expect c (c # r) = Some r"
  by (simp add: expect_def)

lemma tail_fields:
  "fixedNumber 2 ''00+08:00'' = Some (0, ''+08:00'')"
  "offsetSign ''+08:00'' = Some (1, ''08:00'')"
  "fixedNumber 2 ''08:00'' = Some (8, '':00'')"
  "fixedNumber 2 ''00'' = Some (0, [])"
  by (simp_all add: fixedNumber_def isDigit_def digitOf_def digitTable_def digitsValue_def
      offsetSign_def)

lemma digitChar_not_sign: "digitChar d \<noteq> CHR ''+'' \<and> digitChar d \<noteq> CHR ''-''"
  by (simp add: digitChar_def)

lemma yearField_year:
  assumes "1000 \<le> y" "y \<le> 9999"
  shows "yearField (numToString y @ rest) = Some (y, rest)"
proof -
  have "numToString y = natToString (nat y)"
    using assms by (simp add: numToString_def)
  also have "\<dots> = [digitChar (nat y div 10 div 10 div 10), digitChar (nat y div 10 div 10 mod 10),
                     digitChar (nat y div 10 mod 10), digitChar (nat y mod 10)]"
    using assms by (intro natToString_4) simp_all
  finally have "offsetSign (numToString y @ rest) = None"
    using digitChar_not_sign [of "nat y div 10 div 10 div 10"] by (simp add: offsetSign_def)
  then show ?thesis
    using assms by (simp add: yearField_def fixedNumber_year)
qed

lemma isoFields_make:
  assumes "1000 \<le> y" "y \<le> 9999" "0 \<le> m" "m \<le> 99" "0 \<le> d" "d \<le> 99"
    "0 \<le> hh" "hh \<le> 99" "0 \<le> mm" "mm \<le> 99"
  shows "isoFields (numToString y @ ''-'' @ pad2 m @ ''-'' @ pad2 d @ ''T'' @ pad2 hh @ '':''
                @ pad2 mm @ '':00+08:00'') = Some (y, m, d, hh, mm, 0, 1, 8, 0)"
  using assms
  by (simp add: isoFields_def yearField_year fixedNumber_pad2 expect_Cons tail_fields)

lemma Date_parse_make:
  assumes "1000 \<le> y" "y \<le> 9999" "1 \<le> m" "m \<le> 12" "1 \<le> d" "d \<le> 31"
    "lenient \<or> d \<le> daysInMonth y m"
    "0 \<le> hh" "hh \<le> 23" "0 \<le> mm" "mm \<le> 59"
    "validTime (makeDay y m d * msPerDay + hh * 3600000 + mm * 60000 - 28800000)"
  shows "makeDateFromBeijingParts lenient y m d hh mm =
           Num (makeDay y m d * msPerDay + hh * 3600000 + mm * 60000 - 28800000)"
proof -
  have f: "isoFields (numToString y @ ''-'' @ pad2 m @ ''-'' @ pad2 d @ ''T'' @ pad2 hh @ '':''
                @ pad2 mm @ '':00+08:00'') = Some (y, m, d, hh, mm, 0, 1, 8, 0)"
    using assms by (intro isoFields_make) simp_all
  show ?thesis
    unfolding makeDateFromBeijingParts_def Let_def Date_parse_def f
    using assms by auto
qed

lemma month_day_valid:
  assumes "0 \<le> d" "d < 365 + leapDay y"
  shows "d - firstDayOfMonth (leapDay y) (monthFromDayInYear (leapDay y) d) + 1
           \<le> daysInMonth y (monthFromDayInYear (leapDay y) d + 1)"
  using assms leapDay_cases [of y]
  unfolding monthFromDayInYear_def firstDayOfMonth_def daysInMonth_def
  by (elim disjE) (simp_all)

lemma dayFromYear_lower: "1000 \<le> y \<Longrightarrow> - 400000 \<le> dayFromYear y"
proof -
  assume y: "1000 \<le> y"
  define a where "a = (y - 1969) div 4"
  define b where "b = (y - 1901) div 100"
  define c where "c = (y - 1601) div 400"
  have a: "y - 1969 < 4 * a + 4" unfolding a_def by (rule floor_bounds) simp
  have b: "100 * b \<le> y - 1901" unfolding b_def by (rule floor_bounds) simp
  have c: "y - 1601 < 400 * c + 400" unfolding c_def by (rule floor_bounds) simp
  have "- 400000 \<le> 365 * y - 719050 + a - b + c"
    using y a b c by linarith
  then show ?thesis
    by (simp add: dayFromYear_def a_def b_def c_def)
qed

lemma time_of_day:
  fixes t :: int
  assumes "t mod 60000 = 0"
  shows "(t div 86400000) * 86400000 + (t mod 86400000 div 3600000) * 3600000
           + (t mod 86400000 div 60000 mod 60) * 60000 = t"
    and "0 \<le> t mod 86400000 div 3600000" and "t mod 86400000 div 3600000 \<le> 23"
    and "0 \<le> t mod 86400000 div 60000 mod 60" and "t mod 86400000 div 60000 mod 60 \<le> 59"
proof -
  define tod where "tod = t mod 86400000"
  define k where "k = tod div 60000"
  have tod: "0 \<le> tod" "tod < 86400000" by (simp_all add: tod_def)
  have "tod mod 60000 = t mod 60000"
    unfolding tod_def by (rule mod_mod_cancel) simp
  then have "tod mod 60000 = 0" using assms by simp
  then have tk: "tod = k * 60000"
    using div_mult_mod_eq [of tod 60000] by (simp add: k_def)
  have h: "tod div 3600000 = k div 60"
    unfolding tk by simp
  have k: "0 \<le> k" "k < 1440" using tod tk by linarith+
  have hm: "(k div 60) * 60 + k mod 60 = k" by simp
  have t: "(t div 86400000) * 86400000 + tod = t" by (simp add: tod_def)
  have "(t div 86400000) * 86400000 + (k div 60) * 3600000 + (k mod 60) * 60000 = t"
    using t tk hm by linarith
  then show "(t div 86400000) * 86400000 + (t mod 86400000 div 3600000) * 3600000
           + (t mod 86400000 div 60000 mod 60) * 60000 = t"
    using h by (simp add: tod_def [symmetric] k_def [symmetric])
  show "0 \<le> t mod 86400000 div 3600000" by (simp add: pos_imp_zdiv_nonneg_iff)
  show "t mod 86400000 div 3600000 \<le> 23"
    using h k by (simp add: tod_def [symmetric])
  show "0 \<le> t mod 86400000 div 60000 mod 60" by simp
  show "t mod 86400000 div 60000 mod 60 \<le> 59"
    using pos_mod_bound [of 60 "t mod 86400000 div 60000"] by linarith
qed


subsection \<open>Civil time: the round trip\<close>

text \<open>
  C4. For an instant \<open>t\<close> on a minute boundary whose civil year at the offset of
  eight hours has four digits (1000 to 9999), putting the civil parts of \<open>t\<close>
  together again gives \<open>t\<close>, whichever way the engine treats days that a month does
  not have.
\<close>

theorem C4_round_trip:
  assumes minute: "t mod 60000 = 0"
    and parts: "getBeijingParts t = Some p"
    and year: "1000 \<le> year p" "year p \<le> 9999"
  shows "fromCivilToCivil lenient t = Num t"
proof -
  define t' where "t' = t + 28800000"
  define dn where "dn = t' div 86400000"
  define y where "y = yearFromDay dn"
  define diy where "diy = dn - dayFromYear y"
  define m0 where "m0 = monthFromDayInYear (leapDay y) diy"
  define dd where "dd = diy - firstDayOfMonth (leapDay y) m0 + 1"
  define hh where "hh = t' mod 86400000 div 3600000"
  define mi where "mi = t' mod 86400000 div 60000 mod 60"
  have valid': "validTime t'"
    using parts by (auto simp add: getBeijingParts_def t'_def Let_def split: if_splits)
  have p: "p = \<lparr> year = y, month = m0 + 1, day = dd, hour = hh, minute = mi \<rparr>"
    using parts valid'
    by (simp add: getBeijingParts_def Let_def msPerDay_def t'_def dn_def y_def diy_def m0_def
        dd_def hh_def mi_def)
  have y: "1000 \<le> y" "y \<le> 9999" using year by (simp_all add: p)
  have diy: "0 \<le> diy" "diy < 365 + leapDay y"
    using dayInYear_bounds [of dn] by (simp_all add: diy_def y_def)
  have md: "0 \<le> m0" "m0 \<le> 11" "1 \<le> dd" "dd \<le> 31"
    using month_day_bounds [OF leapDay_cases diy] by (simp_all add: m0_def dd_def)
  have dim: "dd \<le> daysInMonth y (m0 + 1)"
    using month_day_valid [OF diy] by (simp add: m0_def dd_def)
  have mk: "makeDay y (m0 + 1) dd = dn"
    by (simp add: makeDay_def dd_def diy_def)
  have "t' = t + 480 * 60000" by (simp add: t'_def)
  then have "t' mod 60000 = t mod 60000" by (simp only: mod_mult_self1)
  then have "t' mod 60000 = 0" using minute by simp
  note tod = time_of_day [OF this, folded hh_def mi_def dn_def]
  have val: "makeDay y (m0 + 1) dd * msPerDay + hh * 3600000 + mi * 60000 - 28800000 = t"
    using tod(1) by (simp add: mk msPerDay_def t'_def)
  have "- 400000 \<le> dn"
    using dayFromYear_lower [OF y(1)] diy(1) by (simp add: diy_def)
  moreover have "dn * 86400000 \<le> t'"
    unfolding dn_def using floor_bounds(1) [of 86400000 t'] by (simp add: mult.commute)
  ultimately have "- 34560000000000 \<le> t'" by linarith
  then have valid: "validTime t"
    using valid' by (simp add: validTime_def t'_def)
  have "makeDateFromBeijingParts lenient y (m0 + 1) dd hh mi =
          Num (makeDay y (m0 + 1) dd * msPerDay + hh * 3600000 + mi * 60000 - 28800000)"
    using y md dim tod(2-5) valid
    by (intro Date_parse_make) (simp_all add: val)
  then show ?thesis
    by (simp add: fromCivilToCivil_def parts p val)
qed


theorem C4_round_trip_witness:
  "(1735695000000::int) mod 60000 = 0
   \<and> getBeijingParts 1735695000000 =
       Some \<lparr> year = 2025, month = 1, day = 1, hour = 9, minute = 30 \<rparr>
   \<and> fromCivilToCivil False 1735695000000 = Num 1735695000000"
proof -
  have p: "getBeijingParts 1735695000000 =
       Some \<lparr> year = 2025, month = 1, day = 1, hour = 9, minute = 30 \<rparr>"
    by code_simp
  have "fromCivilToCivil False 1735695000000 = Num 1735695000000"
    using C4_round_trip [of 1735695000000, OF _ p] by simp
  then show ?thesis using p by simp
qed

text \<open>
  The round trip can fail outside these years: the first minute of the civil year
  10000 has the parts 10000-01-01 00:00, the string built from them has a year of
  five digits, and the date parsed from it is invalid.
\<close>

theorem C4_round_trip_counterexample:
  "(253402272000000::int) mod 60000 = 0 \<and> validTime 253402272000000
   \<and> getBeijingParts 253402272000000 =
       Some \<lparr> year = 10000, month = 1, day = 1, hour = 0, minute = 0 \<rparr>
   \<and> fromCivilToCivil True 253402272000000 \<noteq> Num 253402272000000
   \<and> fromCivilToCivil False 253402272000000 \<noteq> Num 253402272000000"
proof -
  have p: "getBeijingParts 253402272000000 =
       Some \<lparr> year = 10000, month = 1, day = 1, hour = 0, minute = 0 \<rparr>"
    by code_simp
  have n: "makeDateFromBeijingParts lenient 10000 1 1 0 0 = NaN" for lenient
    by (simp add: makeDateFromBeijingParts_def Date_parse_def str_eval parse_eval)
  show ?thesis
    by (simp add: fromCivilToCivil_def p n validTime_def)
qed

subsection \<open>The set-reminder request\<close>

text \<open>
  C2. A set-reminder request for a task is turned down with an alert, and the
  list, the timers and the scheduled notifications stay as they were, in two
  cases: the date text does not split at \<open>-\<close> into three parts, or the time text at
  \<open>:\<close> into two, that \<open>parseInt\<close> all reads as numbers; or the date built from the
  five numbers is a valid instant that is not later than now. The date text
  2025-02-30 is not malformed in this sense: its parts are read as 2025, 2 and 30.
\<close>

theorem C2_setReminder_rejects:
  assumes "i \<noteq> []"
  shows "(length (dateParts (reminderRequest i dateText timeText s)) \<noteq> 3
          \<or> length (timeParts (reminderRequest i dateText timeText s)) \<noteq> 2
          \<or> NaN \<in> set (dateParts (reminderRequest i dateText timeText s))
          \<or> NaN \<in> set (timeParts (reminderRequest i dateText timeText s))
        \<longrightarrow> setReminder lenient os now granted requested handle i dateText timeText s
              = (Some InvalidInput, reminderRequest i dateText timeText s))
     \<and> (dateParts (reminderRequest i dateText timeText s) = [Num y, Num m, Num d]
          \<and> timeParts (reminderRequest i dateText timeText s) = [Num hh, Num mm]
          \<and> makeDateFromBeijingParts lenient y m d hh mm = Num v \<and> v \<le> now
        \<longrightarrow> setReminder lenient os now granted requested handle i dateText timeText s
              = (Some NotFuture, reminderRequest i dateText timeText s))
     \<and> todos (reminderRequest i dateText timeText s) = todos s
     \<and> webTimers (reminderRequest i dateText timeText s) = webTimers s
     \<and> notifications (reminderRequest i dateText timeText s) = notifications s
     \<and> dateParts (reminderRequest i ''2025-02-30'' timeText s) = [Num 2025, Num 2, Num 30]"
proof (intro conjI impI)
  have tgt: "truthy (reminderTargetId (reminderRequest i dateText timeText s))"
    using assms by (simp add: reminderRequest_def)
  {
    assume "length (dateParts (reminderRequest i dateText timeText s)) \<noteq> 3
          \<or> length (timeParts (reminderRequest i dateText timeText s)) \<noteq> 2
          \<or> NaN \<in> set (dateParts (reminderRequest i dateText timeText s))
          \<or> NaN \<in> set (timeParts (reminderRequest i dateText timeText s))"
    then show "setReminder lenient os now granted requested handle i dateText timeText s
              = (Some InvalidInput, reminderRequest i dateText timeText s)"
      using tgt by (auto simp add: setReminder_def confirmReminder_def list_ex_iff)
  }
  {
    assume "dateParts (reminderRequest i dateText timeText s) = [Num y, Num m, Num d]
          \<and> timeParts (reminderRequest i dateText timeText s) = [Num hh, Num mm]
          \<and> makeDateFromBeijingParts lenient y m d hh mm = Num v \<and> v \<le> now"
    then show "setReminder lenient os now granted requested handle i dateText timeText s
              = (Some NotFuture, reminderRequest i dateText timeText s)"
      using tgt by (simp add: setReminder_def confirmReminder_def list_ex_iff)
  }
qed (simp_all add: reminderRequest_def str_eval parse_eval)

theorem C2_setReminder_rejects_witness:
  "setReminder False Web 1735689600000 True True [] ''1000'' ''2025-xx-01'' ''09:30''
       (run Web [SetDraftTitle ''a'', AddTodo 1000] (initial Web None))
     = (Some InvalidInput,
        reminderRequest ''1000'' ''2025-xx-01'' ''09:30''
          (run Web [SetDraftTitle ''a'', AddTodo 1000] (initial Web None)))
   \<and> makeDateFromBeijingParts False 2024 12 31 9 30 = Num 1735608600000
   \<and> setReminder False Web 1735689600000 True True [] ''1000'' ''2024-12-31'' ''09:30''
       (run Web [SetDraftTitle ''a'', AddTodo 1000] (initial Web None))
     = (Some NotFuture,
        reminderRequest ''1000'' ''2024-12-31'' ''09:30''
          (run Web [SetDraftTitle ''a'', AddTodo 1000] (initial Web None)))"
proof -
  let ?s = "run Web [SetDraftTitle ''a'', AddTodo 1000] (initial Web None)"
  have a: "NaN \<in> set (dateParts (reminderRequest ''1000'' ''2025-xx-01'' ''09:30'' ?s))"
    by (simp add: str_eval parse_eval reminderRequest_def)
  have b: "dateParts (reminderRequest ''1000'' ''2024-12-31'' ''09:30'' ?s)
             = [Num 2024, Num 12, Num 31]"
    by (simp add: str_eval parse_eval reminderRequest_def)
  have c: "timeParts (reminderRequest ''1000'' ''2024-12-31'' ''09:30'' ?s) = [Num 9, Num 30]"
    by (simp add: str_eval parse_eval reminderRequest_def)
  have d: "makeDateFromBeijingParts False 2024 12 31 9 30 = Num 1735608600000"
    by (simp add: str_eval parse_eval date_eval)
  have "setReminder False Web 1735689600000 True True [] ''1000'' ''2025-xx-01'' ''09:30'' ?s
     = (Some InvalidInput, reminderRequest ''1000'' ''2025-xx-01'' ''09:30'' ?s)"
    using C2_setReminder_rejects [where i = "''1000''" and dateText = "''2025-xx-01''"
        and timeText = "''09:30''" and s = ?s and lenient = False and os = Web
        and now = 1735689600000 and granted = True and requested = True and handle = "[]"] a
    by simp
  moreover have "setReminder False Web 1735689600000 True True [] ''1000'' ''2024-12-31'' ''09:30'' ?s
     = (Some NotFuture, reminderRequest ''1000'' ''2024-12-31'' ''09:30'' ?s)"
    using C2_setReminder_rejects [where i = "''1000''" and dateText = "''2024-12-31''"
        and timeText = "''09:30''" and s = ?s and lenient = False and os = Web
        and now = 1735689600000 and granted = True and requested = True and handle = "[]"
        and y = 2024 and m = 12 and d = 31 and hh = 9 and mm = 30 and v = 1735608600000] b c d
    by simp
  ultimately show ?thesis using d by simp
qed

text \<open>
  The calendar is not consulted: on the first of January 2025 the request for
  2025-02-30 09:30 is accepted. A lenient engine reads the date as the second of
  March and the reminder is set for that instant; a strict engine reads an invalid
  date, which is not \<open><=\<close> now, and the reminder is set with the timestamp \<open>NaN\<close>.
\<close>

theorem C2_invalid_calendar_date_counterexample:
  "fst (setReminder True Web 1735689600000 True True [] ''1000'' ''2025-02-30'' ''09:30''
         (run Web [SetDraftTitle ''a'', AddTodo 1000] (initial Web None))) = None
   \<and> map reminderTimestamp
        (todos (snd (setReminder True Web 1735689600000 True True [] ''1000'' ''2025-02-30'' ''09:30''
         (run Web [SetDraftTitle ''a'', AddTodo 1000] (initial Web None)))))
       = [Some (Num 1740879000000)]
   \<and> fst (setReminder False Web 1735689600000 True True [] ''1000'' ''2025-02-30'' ''09:30''
         (run Web [SetDraftTitle ''a'', AddTodo 1000] (initial Web None))) = None
   \<and> map reminderTimestamp
        (todos (snd (setReminder False Web 1735689600000 True True [] ''1000'' ''2025-02-30'' ''09:30''
         (run Web [SetDraftTitle ''a'', AddTodo 1000] (initial Web None)))))
       = [Some NaN]
   \<and> map reminderTimestamp
        (todos (run Web [SetDraftTitle ''a'', AddTodo 1000] (initial Web None))) = [None]"
  by (simp add: str_eval parse_eval date_eval store_eval)

end
